theory Spec2Isabelle
  imports Main "HOL-Library.Word" "HOL-Library.Finite_Map"
begin

section \<open>Python values, exceptions and output events\<close>

type_synonym byte = "8 word"
type_synonym bytes = "byte list"

text \<open>
  The object handed to \<^verbatim>\<open>f.write\<close>. The sources use \<^verbatim>\<open>follow_symlinks\<close> of
  \<^verbatim>\<open>os.utime\<close>, so they run under Python 3, where \<^verbatim>\<open>bytes\<close> and \<^verbatim>\<open>str\<close> are
  different types and a file opened with mode \<^verbatim>\<open>'wb'\<close> accepts only the former.
\<close>

datatype pydata = PyBytes bytes | PyStr string

text \<open>
  Exceptions, all of them subclasses of \<^verbatim>\<open>Exception\<close>. \<open>KeyError k\<close> is a failed
  dictionary lookup of key \<open>k\<close>, \<open>TypeError\<close> is what writing a \<^verbatim>\<open>str\<close> to a binary
  file raises, \<open>StructError\<close> is \<^verbatim>\<open>struct.error\<close>, \<open>UnboundLocalError v\<close> is the
  use of a local variable \<open>v\<close> that no branch has assigned, \<open>OSError m\<close> is raised by the
  host, \<open>Exception m\<close> is \<^verbatim>\<open>Exception(m)\<close> and whatever a decoder module raises.
\<close>

datatype exn =
    KeyError string
  | TypeError
  | StructError
  | RecursionError
  | UnboundLocalError string
  | OSError string
  | Exception string

text \<open>
  A message is kept as its format string and the tuple of its arguments:
  \<^verbatim>\<open>'inum: %s not found' % (n)\<close> is \<open>(''inum: %s not found'', [PInt n])\<close>.
\<close>

datatype pyval = PStr string | PInt nat | PBytes bytes | PExn exn

text \<open>
  Modelled from the spec: the module \<^verbatim>\<open>ubireader.debug\<close> with \<^verbatim>\<open>error\<close>, \<^verbatim>\<open>log\<close> and
  \<^verbatim>\<open>verbose_log\<close> is not among the sources. The spec has the decoder emit events, a
  \<^verbatim>\<open>Warning\<close> among them, so each call is recorded as an output event, with the name of
  the reporting function, the level, the format string and its arguments.
\<close>

datatype event =
    Err string string string "pyval list"
  | Log string string "pyval list"
  | Verbose string string "pyval list"

section \<open>The host operating system\<close>

text \<open>
  The calls of module \<^verbatim>\<open>os\<close> that change the host, and the two steps of
  \<^verbatim>\<open>with open(path, 'wb') as f: f.write(data)\<close>: \<open>OpenWb\<close> creates the file or truncates
  it to length 0, \<open>Write\<close> stores the bytes.
\<close>

datatype syscall =
    Mkdir string
  | OpenWb string
  | Write string bytes
  | Link string string
  | Symlink string string
  | Mknod string nat nat
  | Mkfifo string nat
  | Chown string nat nat
  | Chmod string nat
  | Utime string nat nat

text \<open>
  The state of the host is the list of the calls that have succeeded so far, oldest
  first; a host is then three functions of that history: how \<^verbatim>\<open>os.path.realpath\<close>
  resolves a path, whether \<^verbatim>\<open>os.path.exists\<close> holds, and whether a call raises.
\<close>

record host =
  realpath :: "syscall list \<Rightarrow> string \<Rightarrow> string"
  path_exists :: "syscall list \<Rightarrow> string \<Rightarrow> bool"
  raises :: "syscall list \<Rightarrow> syscall \<Rightarrow> exn option"

section \<open>Settings, nodes and the inode map\<close>

record settings =
  logging_on :: bool
  logging_on_verbose :: bool
  warn_only_block_read_errors :: bool
  ignore_block_header_errors :: bool
  uboot_fix :: bool
  use_dummy_socket_file :: bool
  use_dummy_devices :: bool

text \<open>
  The entry types of \<^verbatim>\<open>ubireader.ubifs.defines\<close>, which is not among the sources: an
  enumeration, with one more value for a type byte that is none of the seven.
\<close>

datatype itype =
    UBIFS_ITYPE_REG
  | UBIFS_ITYPE_DIR
  | UBIFS_ITYPE_LNK
  | UBIFS_ITYPE_BLK
  | UBIFS_ITYPE_CHR
  | UBIFS_ITYPE_FIFO
  | UBIFS_ITYPE_SOCK
  | UBIFS_ITYPE_unknown

record ino_node =
  nlink :: nat
  mode :: nat
  uid :: nat
  gid :: nat
  atime_sec :: nat
  mtime_sec :: nat
  data :: bytes

record dent_node =
  inum :: nat
  type :: itype
  name :: string

text \<open>
  An entry of the inode map is a dictionary in which each of the keys \<^verbatim>\<open>'ino'\<close>,
  \<^verbatim>\<open>'dent'\<close> and \<^verbatim>\<open>'hlink'\<close> may be missing.
\<close>

record inode =
  ino :: "ino_node option"
  dent :: "dent_node list option"
  hlink :: "string option"

type_synonym inode_map = "(nat, inode) fmap"

text \<open>
  What \<^verbatim>\<open>output.py\<close> uses of the UBIFS object and of the decoder modules
  \<^verbatim>\<open>walk\<close>, \<^verbatim>\<open>misc\<close> and \<^verbatim>\<open>decrypt\<close>, none of them among the sources.
  \<open>walk_index\<close> starts from an empty inode map and an empty list of bad blocks and
  either raises or leaves both filled.
\<close>

record ubifs =
  root_lnum :: nat
  root_offs :: nat
  walk_index :: "nat \<Rightarrow> nat \<Rightarrow> exn + (inode_map \<times> nat list)"
  process_reg_file :: "inode \<Rightarrow> string \<Rightarrow> inode_map \<Rightarrow> exn + bytes"
  decrypt_symlink_target :: "inode_map \<Rightarrow> dent_node \<Rightarrow> exn + string"

section \<open>Statements: state, exceptions, sequencing\<close>

record state =
  calls :: "syscall list"
  out :: "event list"
  inodes :: inode_map

text \<open>
  A statement takes the state and returns the exception it raised, if any, with the
  state it left behind.
\<close>

type_synonym stmt = "state \<Rightarrow> exn option \<times> state"

definition raise :: "exn \<Rightarrow> stmt" where
  "raise e s = (Some e, s)"

definition skip :: stmt where
  "skip s = (None, s)"

fun block :: "stmt list \<Rightarrow> stmt" where
  "block [] s = (None, s)"
| "block (c # cs) s =
     (case c s of (None, s') \<Rightarrow> block cs s' | (Some e, s') \<Rightarrow> (Some e, s'))"

definition try_except :: "stmt \<Rightarrow> (exn \<Rightarrow> stmt) \<Rightarrow> stmt" where
  "try_except body handler s =
     (case body s of (None, s') \<Rightarrow> (None, s') | (Some e, s') \<Rightarrow> handler e s')"

text \<open>
  Modelled from the spec: \<^verbatim>\<open>error\<close>, \<^verbatim>\<open>log\<close> and \<^verbatim>\<open>verbose_log\<close> of \<^verbatim>\<open>ubireader.debug\<close>,
  which is not among the sources. Each call adds its event to the output and returns;
  the callers rely on it, as the \<^verbatim>\<open>return\<close> after the call of line 64 shows. For
  \<^verbatim>\<open>error\<close> this is the case of a tolerant mode only: section 7 of the specification has
  an error fail the entire decode when no tolerant mode is configured. That case is
  \<open>spec_error\<close> below, and \<open>extract_dents_by\<close> takes the reporter as an argument.
\<close>

definition error :: "string \<Rightarrow> string \<Rightarrow> string \<Rightarrow> pyval list \<Rightarrow> stmt" where
  "error fn level fmt args s = (None, s\<lparr>out := out s @ [Err fn level fmt args]\<rparr>)"

definition log :: "string \<Rightarrow> string \<Rightarrow> pyval list \<Rightarrow> stmt" where
  "log fn fmt args s = (None, s\<lparr>out := out s @ [Log fn fmt args]\<rparr>)"

definition verbose_log :: "string \<Rightarrow> string \<Rightarrow> pyval list \<Rightarrow> stmt" where
  "verbose_log fn fmt args s = (None, s\<lparr>out := out s @ [Verbose fn fmt args]\<rparr>)"

definition os_call :: "host \<Rightarrow> syscall \<Rightarrow> stmt" where
  "os_call h c s =
     (case raises h (calls s) c of
        Some e \<Rightarrow> (Some e, s)
      | None \<Rightarrow> (None, s\<lparr>calls := calls s @ [c]\<rparr>))"

section \<open>Paths\<close>

definition startswith :: "string \<Rightarrow> string \<Rightarrow> bool" where
  "startswith s p = (take (length p) s = p)"

definition endswith :: "string \<Rightarrow> string \<Rightarrow> bool" where
  "endswith s p = (drop (length s - length p) s = p \<and> length p \<le> length s)"

text \<open>\<^verbatim>\<open>os.path.join\<close> of \<^verbatim>\<open>posixpath\<close>, for two arguments.\<close>

definition path_join :: "string \<Rightarrow> string \<Rightarrow> string" where
  "path_join a b =
     (if startswith b ''/'' then b
      else if a = [] \<or> endswith a ''/'' then a @ b
      else a @ ''/'' @ b)"

definition is_safe_path :: "host \<Rightarrow> syscall list \<Rightarrow> string \<Rightarrow> string \<Rightarrow> bool" where
  "is_safe_path h cs basedir path =
     (let basedir' = realpath h cs basedir;
          path' = realpath h cs (path_join basedir' path)
      in if startswith path' basedir' then True else False)"

section \<open>\<^verbatim>\<open>ubireader/ubifs/output.py\<close>\<close>

subsection \<open>The helpers\<close>

definition set_file_perms :: "host \<Rightarrow> string \<Rightarrow> inode \<Rightarrow> stmt" where
  "set_file_perms h path inode =
     (case ino inode of
        None \<Rightarrow> raise (KeyError ''ino'')
      | Some i \<Rightarrow>
          block
           [os_call h (Chown path (uid i) (gid i)),
            os_call h (Chmod path (mode i)),
            verbose_log ''_set_file_perms'' ''perms:%s, owner: %s.%s, path: %s''
              [PInt (mode i), PInt (uid i), PInt (gid i), PStr path]])"

definition set_file_timestamps :: "host \<Rightarrow> string \<Rightarrow> inode \<Rightarrow> stmt" where
  "set_file_timestamps h path inode =
     (case ino inode of
        None \<Rightarrow> raise (KeyError ''ino'')
      | Some i \<Rightarrow>
          block
           [os_call h (Utime path (atime_sec i) (mtime_sec i)),
            verbose_log ''_set_file_timestamps'' ''timestamps: access: %s, modify: %s, path: %s''
              [PInt (atime_sec i), PInt (mtime_sec i), PStr path]])"

text \<open>
  \<^verbatim>\<open>open(path, 'wb')\<close> has created or emptied the file when \<^verbatim>\<open>f.write\<close> runs; a
  \<^verbatim>\<open>str\<close> argument makes \<^verbatim>\<open>f.write\<close> raise \<^verbatim>\<open>TypeError\<close>, the \<^verbatim>\<open>with\<close> statement closes
  the file and the exception leaves the function.
\<close>

definition write_reg_file :: "host \<Rightarrow> string \<Rightarrow> pydata \<Rightarrow> stmt" where
  "write_reg_file h path dat =
     block
      [os_call h (OpenWb path),
       (case dat of
          PyBytes b \<Rightarrow> os_call h (Write path b)
        | PyStr t \<Rightarrow> raise TypeError),
       log ''_write_reg_file'' ''Make File: %s'' [PStr path]]"

text \<open>\<^verbatim>\<open>if perms: _set_file_perms(dent_path, inode)\<close>\<close>

definition if_perms :: "bool \<Rightarrow> host \<Rightarrow> string \<Rightarrow> inode \<Rightarrow> stmt" where
  "if_perms perms h dent_path inode =
     (if perms then set_file_perms h dent_path inode else skip)"

text \<open>Decimal digits of a number: \<^verbatim>\<open>str(n)\<close>.\<close>

fun str_nat :: "nat \<Rightarrow> string" where
  "str_nat n =
     (if n < 10 then [char_of (48 + n)]
      else str_nat (n div 10) @ [char_of (48 + n mod 10)])"

declare str_nat.simps [simp del]

text \<open>
  \<^verbatim>\<open>struct.unpack('<II', b)\<close>: two little-endian 32-bit numbers out of exactly eight
  bytes, \<^verbatim>\<open>struct.error\<close> for any other length.
\<close>

definition le_uint :: "bytes \<Rightarrow> nat" where
  "le_uint bs = foldr (\<lambda>b acc. unat b + 256 * acc) bs 0"

definition struct_unpack_II :: "bytes \<Rightarrow> exn + (nat \<times> nat)" where
  "struct_unpack_II b =
     (if length b = 8 then Inr (le_uint (take 4 b), le_uint (drop 4 b))
      else Inl StructError)"

subsection \<open>The branches of \<^verbatim>\<open>extract_dents\<close>\<close>

text \<open>Lines 75 to 83: the \<^verbatim>\<open>try\<close> statement of a directory entry.\<close>

definition extract_dents_mkdir :: "host \<Rightarrow> bool \<Rightarrow> string \<Rightarrow> inode \<Rightarrow> stmt" where
  "extract_dents_mkdir h perms dent_path inode =
     try_except
       (\<lambda>s. if \<not> path_exists h (calls s) dent_path
            then block
                  [os_call h (Mkdir dent_path),
                   log ''extract_dents'' ''Make Dir: %s'' [PStr dent_path],
                   if_perms perms h dent_path inode] s
            else (None, s))
       (\<lambda>e. error ''extract_dents'' ''Warn'' ''DIR Fail: %s'' [PExn e])"

text \<open>
  Lines 96 and 97, and 102 and 103. \<^verbatim>\<open>process_reg_file\<close> is given the inode as it is in
  the map at that moment.
\<close>

definition write_body :: "host \<Rightarrow> ubifs \<Rightarrow> string \<Rightarrow> inode \<Rightarrow> stmt" where
  "write_body h u dent_path inode s =
     (case process_reg_file u inode dent_path (inodes s) of
        Inl e \<Rightarrow> (Some e, s)
      | Inr buf \<Rightarrow> write_reg_file h dent_path (PyBytes buf) s)"

text \<open>Line 95: \<^verbatim>\<open>inode['hlink'] = dent_path\<close>, on the dictionary that the map holds.\<close>

definition set_hlink :: "nat \<Rightarrow> inode \<Rightarrow> string \<Rightarrow> stmt" where
  "set_hlink i inode dent_path s =
     (None, s\<lparr>inodes := fmupd i (inode\<lparr>hlink := Some dent_path\<rparr>) (inodes s)\<rparr>)"

text \<open>Lines 92 to 111: a regular file.\<close>

definition extract_dents_REG ::
  "host \<Rightarrow> ubifs \<Rightarrow> bool \<Rightarrow> dent_node \<Rightarrow> string \<Rightarrow> inode \<Rightarrow> stmt" where
  "extract_dents_REG h u perms dent_node dent_path inode =
     try_except
       (block
         [(case ino inode of
             None \<Rightarrow> raise (KeyError ''ino'')
           | Some i \<Rightarrow>
               if nlink i > 1 then
                 (case hlink inode of
                    None \<Rightarrow>
                      block
                       [set_hlink (inum dent_node) inode dent_path,
                        write_body h u dent_path (inode\<lparr>hlink := Some dent_path\<rparr>)]
                  | Some first_path \<Rightarrow>
                      block
                       [os_call h (Link first_path dent_path),
                        log ''extract_dents'' ''Make Link: %s > %s''
                          [PStr dent_path, PStr first_path]])
               else write_body h u dent_path inode),
          set_file_timestamps h dent_path inode,
          if_perms perms h dent_path inode])
       (\<lambda>e. error ''extract_dents'' ''Warn'' ''FILE Fail: %s'' [PExn e])"

text \<open>Lines 114 to 123: a symbolic link.\<close>

definition extract_dents_LNK ::
  "host \<Rightarrow> ubifs \<Rightarrow> dent_node \<Rightarrow> string \<Rightarrow> inode \<Rightarrow> stmt" where
  "extract_dents_LNK h u dent_node dent_path inode =
     try_except
       (\<lambda>s. case decrypt_symlink_target u (inodes s) dent_node of
              Inl e \<Rightarrow> (Some e, s)
            | Inr lnkname \<Rightarrow>
                block
                 [os_call h (Symlink lnkname dent_path),
                  set_file_timestamps h dent_path inode,
                  (case ino inode of
                     None \<Rightarrow> raise (KeyError ''ino'')
                   | Some i \<Rightarrow>
                       log ''extract_dents'' ''Make Symlink: %s > %s''
                         [PStr dent_path, PBytes (data i)])] s)
       (\<lambda>e. error ''extract_dents'' ''Warn'' ''SYMLINK Fail: %s'' [PExn e])"

text \<open>Lines 126 to 142: a block or character device.\<close>

definition extract_dents_DEV ::
  "host \<Rightarrow> settings \<Rightarrow> bool \<Rightarrow> string \<Rightarrow> inode \<Rightarrow> stmt" where
  "extract_dents_DEV h cfg perms dent_path inode =
     try_except
       (case ino inode of
          None \<Rightarrow> raise (KeyError ''ino'')
        | Some i \<Rightarrow>
            (case struct_unpack_II (data i) of
               Inl e \<Rightarrow> raise e
             | Inr (dev, dev2) \<Rightarrow>
                 if \<not> use_dummy_devices cfg then
                   block
                    [os_call h (Mknod dent_path (mode i) dev),
                     log ''extract_dents'' ''Make Device Node: %s'' [PStr dent_path],
                     if_perms perms h dent_path inode]
                 else
                   block
                    [log ''extract_dents'' ''Create dummy device.'' [],
                     write_reg_file h dent_path (PyStr (str_nat dev)),
                     if_perms perms h dent_path inode]))
       (\<lambda>e. error ''extract_dents'' ''Warn'' ''DEV Fail: %s'' [PExn e])"

text \<open>Lines 145 to 152: a fifo. The log line names \<^verbatim>\<open>path\<close>, the directory.\<close>

definition extract_dents_FIFO ::
  "host \<Rightarrow> bool \<Rightarrow> string \<Rightarrow> string \<Rightarrow> inode \<Rightarrow> stmt" where
  "extract_dents_FIFO h perms path dent_path inode =
     try_except
       (case ino inode of
          None \<Rightarrow> raise (KeyError ''ino'')
        | Some i \<Rightarrow>
            block
             [os_call h (Mkfifo dent_path (mode i)),
              log ''extract_dents'' ''Make FIFO: %s'' [PStr path],
              if_perms perms h dent_path inode])
       (\<lambda>e. error ''extract_dents'' ''Warn'' ''FIFO Fail: %s : %s'' [PStr dent_path, PExn e])"

text \<open>Lines 155 to 161: a socket.\<close>

definition extract_dents_SOCK ::
  "host \<Rightarrow> settings \<Rightarrow> bool \<Rightarrow> string \<Rightarrow> inode \<Rightarrow> stmt" where
  "extract_dents_SOCK h cfg perms dent_path inode =
     try_except
       (if use_dummy_socket_file cfg then
          block
           [write_reg_file h dent_path (PyStr []),
            if_perms perms h dent_path inode]
        else skip)
       (\<lambda>e. error ''extract_dents'' ''Warn'' ''SOCK Fail: %s : %s'' [PStr dent_path, PExn e])"

text \<open>The \<^verbatim>\<open>elif\<close> chain of lines 91 to 161, for an entry that is not a directory.\<close>

definition extract_dents_other ::
  "host \<Rightarrow> settings \<Rightarrow> ubifs \<Rightarrow> bool \<Rightarrow> dent_node \<Rightarrow> string \<Rightarrow> string \<Rightarrow> inode \<Rightarrow> stmt" where
  "extract_dents_other h cfg u perms dent_node path dent_path inode =
     (case type dent_node of
        UBIFS_ITYPE_REG \<Rightarrow> extract_dents_REG h u perms dent_node dent_path inode
      | UBIFS_ITYPE_LNK \<Rightarrow> extract_dents_LNK h u dent_node dent_path inode
      | UBIFS_ITYPE_BLK \<Rightarrow> extract_dents_DEV h cfg perms dent_path inode
      | UBIFS_ITYPE_CHR \<Rightarrow> extract_dents_DEV h cfg perms dent_path inode
      | UBIFS_ITYPE_FIFO \<Rightarrow> extract_dents_FIFO h perms path dent_path inode
      | UBIFS_ITYPE_SOCK \<Rightarrow> extract_dents_SOCK h cfg perms dent_path inode
      | _ \<Rightarrow> skip)"

subsection \<open>\<^verbatim>\<open>extract_dents\<close> and \<^verbatim>\<open>extract_files\<close>\<close>

text \<open>
  \<open>extract_dents\<close> calls itself for the entries of a directory, and an image may make a
  directory its own descendant. Python ends such a descent with \<^verbatim>\<open>RecursionError\<close>; the
  first argument is the number of nested calls that are still allowed. \<open>extract_dnodes\<close>
  is the \<^verbatim>\<open>for\<close> loop over the entries of one directory (lines 86 and 87, and 52 and 53).
\<close>

fun extract_dents ::
    "nat \<Rightarrow> host \<Rightarrow> settings \<Rightarrow> ubifs \<Rightarrow> dent_node \<Rightarrow> string \<Rightarrow> bool \<Rightarrow> stmt"
  and extract_dnodes ::
    "nat \<Rightarrow> host \<Rightarrow> settings \<Rightarrow> ubifs \<Rightarrow> dent_node list \<Rightarrow> string \<Rightarrow> bool \<Rightarrow> stmt"
where
  "extract_dents n h cfg u dent_node path perms s =
     (case fmlookup (inodes s) (inum dent_node) of
        None \<Rightarrow>
          error ''extract_dents'' ''Error'' ''inum: %s not found in inodes''
            [PInt (inum dent_node)] s
      | Some inode \<Rightarrow>
          if \<not> is_safe_path h (calls s) path (name dent_node) then
            error ''extract_dents'' ''Warn'' ''Path traversal attempt: %s, discarding.''
              [PStr (name dent_node)] s
          else
            let dent_path = realpath h (calls s) (path_join path (name dent_node)) in
            if type dent_node = UBIFS_ITYPE_DIR then
              (case extract_dents_mkdir h perms dent_path inode s of
                 (Some e, s1) \<Rightarrow> (Some e, s1)
               | (None, s1) \<Rightarrow>
                   (case (case dent inode of
                            None \<Rightarrow> (None, s1)
                          | Some dnodes \<Rightarrow> extract_dnodes n h cfg u dnodes dent_path perms s1) of
                      (Some e, s2) \<Rightarrow> (Some e, s2)
                    | (None, s2) \<Rightarrow> set_file_timestamps h dent_path inode s2))
            else extract_dents_other h cfg u perms dent_node path dent_path inode s)"
| "extract_dnodes n h cfg u [] path perms s = (None, s)"
| "extract_dnodes 0 h cfg u (dnode # dnodes) path perms s = (Some RecursionError, s)"
| "extract_dnodes (Suc n) h cfg u (dnode # dnodes) path perms s =
     (case extract_dents n h cfg u dnode path perms s of
        (Some e, s') \<Rightarrow> (Some e, s')
      | (None, s') \<Rightarrow> extract_dnodes (Suc n) h cfg u dnodes path perms s')"

declare extract_dents.simps [simp del]

definition join_comma :: "string list \<Rightarrow> string" where
  "join_comma xs = (case xs of [] \<Rightarrow> [] | x # ys \<Rightarrow> foldl (\<lambda>acc y. acc @ '','' @ y) x ys)"

text \<open>
  \<open>extract_files\<close> works on an inode map of its own: whatever \<open>inodes\<close> holds when it
  starts is replaced by the map the walk has built.
\<close>

definition extract_files :: "nat \<Rightarrow> host \<Rightarrow> settings \<Rightarrow> ubifs \<Rightarrow> string \<Rightarrow> bool \<Rightarrow> stmt" where
  "extract_files n h cfg u out_path perms =
     try_except
       (\<lambda>s. case walk_index u (root_lnum u) (root_offs u) of
              Inl e \<Rightarrow> (Some e, s)
            | Inr (inodes', bad_blocks) \<Rightarrow>
                block
                 [(if fcard (fmdom inodes') < 2 then raise (Exception ''No inodes found'')
                   else skip),
                  (case fmlookup inodes' 1 of
                     None \<Rightarrow> raise (KeyError ''1'')
                   | Some root \<Rightarrow>
                       (case dent root of
                          None \<Rightarrow> raise (KeyError ''dent'')
                        | Some dnodes \<Rightarrow> extract_dnodes n h cfg u dnodes out_path perms)),
                  (if length bad_blocks \<noteq> 0 then
                     error ''extract_files'' ''Warn''
                       ''Data may be missing or corrupted, bad blocks, LEB [%s]''
                       [PStr (join_comma (map str_nat bad_blocks))]
                   else skip)]
                 (s\<lparr>inodes := inodes'\<rparr>))
       (\<lambda>e. error ''extract_files'' ''Error'' ''%s'' [PExn e])"

subsection \<open>The reporter as a parameter\<close>
















section \<open>A host and an image to run the functions on\<close>

text \<open>
  A host without symbolic links whose working directory is \<^verbatim>\<open>/\<close>: \<^verbatim>\<open>realpath\<close> only
  removes empty and \<^verbatim>\<open>.\<close> components and resolves \<^verbatim>\<open>..\<close> against the component before
  it; a path exists once a call has created it; the calls listed in \<open>denied\<close> raise
  and every other call succeeds.
\<close>

fun split_sep :: "char \<Rightarrow> string \<Rightarrow> string list" where
  "split_sep c [] = [[]]"
| "split_sep c (x # xs) =
     (if x = c then [] # split_sep c xs
      else (case split_sep c xs of [] \<Rightarrow> [[x]] | y # ys \<Rightarrow> (x # y) # ys))"

fun resolve :: "string list \<Rightarrow> string list \<Rightarrow> string list" where
  "resolve acc [] = rev acc"
| "resolve acc (c # cs) =
     (if c = [] \<or> c = ''.'' then resolve acc cs
      else if c = ''..'' then resolve (tl acc) cs
      else resolve (c # acc) cs)"

definition lexical_realpath :: "string \<Rightarrow> string" where
  "lexical_realpath p =
     (case resolve [] (split_sep CHR ''/'' p) of
        [] \<Rightarrow> ''/''
      | c # cs \<Rightarrow> concat (map (\<lambda>x. ''/'' @ x) (c # cs)))"

fun created :: "syscall \<Rightarrow> string option" where
  "created (Mkdir p) = Some p"
| "created (OpenWb p) = Some p"
| "created (Link src p) = Some p"
| "created (Symlink target p) = Some p"
| "created (Mknod p m d) = Some p"
| "created (Mkfifo p m) = Some p"
| "created c = None"

definition demo_host :: "syscall list \<Rightarrow> host" where
  "demo_host denied =
     \<lparr>realpath = (\<lambda>cs p. lexical_realpath p),
      path_exists = (\<lambda>cs p. Some p \<in> set (map created cs)),
      raises = (\<lambda>cs c. if c \<in> set denied then Some (OSError ''Permission denied'') else None)\<rparr>"

text \<open>
  An image whose walk yields the inode map \<open>m\<close> and the bad blocks \<open>bad\<close>, in which
  every file body is \<^verbatim>\<open>xyz\<close> and every link target is \<^verbatim>\<open>target\<close>.
\<close>

definition demo_ubifs :: "inode_map \<Rightarrow> nat list \<Rightarrow> ubifs" where
  "demo_ubifs m bad =
     \<lparr>root_lnum = 0, root_offs = 0,
      walk_index = (\<lambda>lnum offs. Inr (m, bad)),
      process_reg_file = (\<lambda>inode path m'. Inr [120, 121, 122]),
      decrypt_symlink_target = (\<lambda>m' d. Inr ''target'')\<rparr>"

definition no_options :: settings where
  "no_options =
     \<lparr>logging_on = False, logging_on_verbose = False,
      warn_only_block_read_errors = False, ignore_block_header_errors = False,
      uboot_fix = False, use_dummy_socket_file = False, use_dummy_devices = False\<rparr>"


definition demo_ino :: "nat \<Rightarrow> bytes \<Rightarrow> ino_node" where
  "demo_ino n d =
     \<lparr>nlink = n, mode = 420, uid = 0, gid = 0, atime_sec = 10, mtime_sec = 20, data = d\<rparr>"

definition file_inode :: "nat \<Rightarrow> inode" where
  "file_inode n = \<lparr>ino = Some (demo_ino n []), dent = None, hlink = None\<rparr>"

definition start :: "inode_map \<Rightarrow> state" where
  "start m = \<lparr>calls = [], out = [], inodes = m\<rparr>"

text \<open>An image whose index cannot be walked.\<close>

definition broken_ubifs :: ubifs where
  "broken_ubifs =
     (demo_ubifs fmempty [])\<lparr>walk_index := (\<lambda>lnum offs. Inl (Exception ''bad index node''))\<rparr>"

text \<open>The inode of a directory with the given entries.\<close>

definition dir_inode :: "dent_node list \<Rightarrow> inode" where
  "dir_inode ds = \<lparr>ino = Some (demo_ino 2 []), dent = Some ds, hlink = None\<rparr>"

definition reg_dent :: "nat \<Rightarrow> string \<Rightarrow> dent_node" where
  "reg_dent i nm = \<lparr>inum = i, type = UBIFS_ITYPE_REG, name = nm\<rparr>"

text \<open>
  The words of the specification on path safety: a resolved path lies outside a directory when it
  is neither the directory nor a path below it.
\<close>

definition lies_outside :: "string \<Rightarrow> string \<Rightarrow> bool" where
  "lies_outside basedir p = (p \<noteq> basedir \<and> \<not> startswith p (basedir @ ''/''))"

text \<open>The inode of a device, fifo or socket with the given \<^verbatim>\<open>data\<close> field.\<close>

definition dev_inode :: "bytes \<Rightarrow> inode" where
  "dev_inode d = \<lparr>ino = Some (demo_ino 1 d), dent = None, hlink = None\<rparr>"

section \<open>\<^verbatim>\<open>ubireader/scripts/ubireader_list_files.py\<close>\<close>

text \<open>
  The namespace that \<^verbatim>\<open>parser.parse_args()\<close> returns: a flag is a boolean, an option
  with \<^verbatim>\<open>type=int\<close> is an integer or \<^verbatim>\<open>None\<close>, any other option is a string or
  \<^verbatim>\<open>None\<close>, and the positional \<^verbatim>\<open>filepath\<close> is a string.
\<close>

record args =
  arg_log :: bool
  arg_verbose :: bool
  arg_block_size :: "int option"
  arg_start_offset :: "int option"
  arg_end_offset :: "int option"
  arg_guess_offset :: "int option"
  arg_warn_only_block_read_errors :: bool
  arg_ignore_block_header_errors :: bool
  arg_uboot_fix :: bool
  arg_listpath :: "string option"
  arg_copyfile :: "string option"
  arg_copyfiledest :: "string option"
  arg_master_key :: "string option"
  arg_filepath :: string

text \<open>Python's truth value of an optional integer and of an optional string.\<close>

definition truthy_int :: "int option \<Rightarrow> bool" where
  "truthy_int x = (case x of None \<Rightarrow> False | Some v \<Rightarrow> v \<noteq> 0)"

definition truthy_str :: "string option \<Rightarrow> bool" where
  "truthy_str x = (case x of None \<Rightarrow> False | Some v \<Rightarrow> v \<noteq> [])"

text \<open>
  How \<open>main\<close> ends when it does not reach the decoding: \<^verbatim>\<open>parser.error(msg)\<close> prints
  the usage with the message and exits, an exception that nothing catches ends the
  program, and a helper may exit by itself.
\<close>

datatype outcome = ParserError string | Uncaught exn | SysExit

text \<open>
  The files of the host as the script reads them: whether \<^verbatim>\<open>os.path.exists\<close> holds, and
  what \<^verbatim>\<open>open(path, 'rb')\<close> gives, an exception or the bytes of the file;
  \<^verbatim>\<open>os.stat(path).st_size\<close> of an opened file is the number of these bytes.
\<close>

record files =
  exists_path :: "string \<Rightarrow> bool"
  open_rb :: "string \<Rightarrow> exn + bytes"

datatype ftype = UBI_EC_HDR_MAGIC | UBIFS_NODE_MAGIC | Other_magic

text \<open>
  The helpers of \<^verbatim>\<open>ubireader.utils\<close>, which is not among the sources. The second argument
  of \<open>guess_start_offset\<close> is \<open>None\<close> when the call leaves it out.
\<close>

record utils =
  guess_start_offset :: "string \<Rightarrow> int option \<Rightarrow> outcome + int"
  guess_filetype :: "string \<Rightarrow> int \<Rightarrow> outcome + ftype option"
  guess_peb_size :: "string \<Rightarrow> outcome + int option"
  guess_leb_size :: "string \<Rightarrow> outcome + int option"

text \<open>The local variables of \<open>main\<close> with which the decoding of line 147 starts.\<close>

record prepared =
  v_settings :: settings
  v_master_key :: "bytes option"
  v_path :: string
  v_start_offset :: int
  v_end_offset :: "int option"
  v_filetype :: ftype
  v_block_size :: int

text \<open>Lines 92 to 100.\<close>

definition main_settings :: "settings \<Rightarrow> args \<Rightarrow> settings" where
  "main_settings st a =
     st\<lparr>logging_on := arg_log a,
        logging_on_verbose := arg_verbose a,
        warn_only_block_read_errors := arg_warn_only_block_read_errors a,
        ignore_block_header_errors := arg_ignore_block_header_errors a,
        uboot_fix := arg_uboot_fix a\<rparr>"

text \<open>
  Lines 102 to 113. The result is \<open>master_key\<close> and the variable \<open>path\<close>, which is
  assigned only when the option is given.
\<close>

definition main_master_key :: "files \<Rightarrow> args \<Rightarrow> outcome + (bytes option \<times> string option)" where
  "main_master_key fs a =
     (if truthy_str (arg_master_key a) then
        (case arg_master_key a of
           None \<Rightarrow> Inr (None, None)
         | Some path \<Rightarrow>
             if \<not> exists_path fs path then Inl (ParserError ''File path doesn't exist.'')
             else
               (case open_rb fs path of
                  Inl e \<Rightarrow> Inl (Uncaught e)
                | Inr content \<Rightarrow>
                    if length content \<noteq> 64
                    then Inl (ParserError ''Master key file size is not 64 bytes.'')
                    else Inr (Some (take 64 content), Some path)))
      else Inr (None, None))"

text \<open>Lines 115 to 118.\<close>

definition main_filepath :: "files \<Rightarrow> args \<Rightarrow> string option \<Rightarrow> outcome + string option" where
  "main_filepath fs a path =
     (if arg_filepath a \<noteq> [] then
        (if \<not> exists_path fs (arg_filepath a) then Inl (ParserError ''File path doesn't exist.'')
         else Inr (Some (arg_filepath a)))
      else Inr path)"

text \<open>Lines 120 to 125.\<close>

definition main_start_offset :: "utils \<Rightarrow> args \<Rightarrow> string option \<Rightarrow> outcome + int" where
  "main_start_offset ut a path =
     (if truthy_int (arg_start_offset a) then
        (case arg_start_offset a of None \<Rightarrow> Inr 0 | Some v \<Rightarrow> Inr v)
      else
        (case path of
           None \<Rightarrow> Inl (Uncaught (UnboundLocalError ''path''))
         | Some p \<Rightarrow>
             if truthy_int (arg_guess_offset a) then guess_start_offset ut p (arg_guess_offset a)
             else guess_start_offset ut p None))"

text \<open>Lines 127 to 130.\<close>

definition main_end_offset :: "args \<Rightarrow> int option" where
  "main_end_offset a = (if truthy_int (arg_end_offset a) then arg_end_offset a else None)"

text \<open>Lines 132 to 134.\<close>

definition main_filetype :: "utils \<Rightarrow> string option \<Rightarrow> int \<Rightarrow> outcome + (string \<times> ftype)" where
  "main_filetype ut path start_offset =
     (case path of
        None \<Rightarrow> Inl (Uncaught (UnboundLocalError ''path''))
      | Some p \<Rightarrow>
          (case guess_filetype ut p start_offset of
             Inl x \<Rightarrow> Inl x
           | Inr None \<Rightarrow> Inl (ParserError ''Could not determine file type.'')
           | Inr (Some t) \<Rightarrow> Inr (p, t)))"

text \<open>Lines 136 to 145.\<close>

definition main_block_size :: "utils \<Rightarrow> args \<Rightarrow> string \<Rightarrow> ftype \<Rightarrow> outcome + int" where
  "main_block_size ut a p filetype =
     (if truthy_int (arg_block_size a) then
        (case arg_block_size a of None \<Rightarrow> Inr 0 | Some v \<Rightarrow> Inr v)
      else
        (case (case filetype of
                 UBI_EC_HDR_MAGIC \<Rightarrow> guess_peb_size ut p
               | UBIFS_NODE_MAGIC \<Rightarrow> guess_leb_size ut p
               | Other_magic \<Rightarrow> Inl (Uncaught (UnboundLocalError ''block_size''))) of
           Inl x \<Rightarrow> Inl x
         | Inr b \<Rightarrow>
             if \<not> truthy_int b then Inl (ParserError ''Block size could not be determined.'')
             else (case b of None \<Rightarrow> Inr 0 | Some v \<Rightarrow> Inr v)))"

text \<open>
  \<open>main\<close> from line 92, after the arguments have been parsed, to line 145; \<open>Inr\<close> is the
  state in which line 147 starts to decode.
\<close>

definition main :: "files \<Rightarrow> utils \<Rightarrow> settings \<Rightarrow> args \<Rightarrow> outcome + prepared" where
  "main fs ut st a =
     (case main_master_key fs a of
        Inl x \<Rightarrow> Inl x
      | Inr (master_key, path0) \<Rightarrow>
     (case main_filepath fs a path0 of
        Inl x \<Rightarrow> Inl x
      | Inr path \<Rightarrow>
     (case main_start_offset ut a path of
        Inl x \<Rightarrow> Inl x
      | Inr start_offset \<Rightarrow>
     (case main_filetype ut path start_offset of
        Inl x \<Rightarrow> Inl x
      | Inr (p, filetype) \<Rightarrow>
     (case main_block_size ut a p filetype of
        Inl x \<Rightarrow> Inl x
      | Inr block_size \<Rightarrow>
          Inr \<lparr>v_settings = main_settings st a,
               v_master_key = master_key,
               v_path = p,
               v_start_offset = start_offset,
               v_end_offset = main_end_offset a,
               v_filetype = filetype,
               v_block_size = block_size\<rparr>)))))"

text \<open>
  A host with the image \<^verbatim>\<open>image.ubi\<close> and the key files \<^verbatim>\<open>key.bin\<close> of 64 bytes and
  \<^verbatim>\<open>short.bin\<close> of 3 bytes; helpers that find the first magic number at offset 2048,
  whatever the offset the scan starts from, and a UBI image with blocks of 131072 bytes.
\<close>

definition demo_files :: files where
  "demo_files =
     \<lparr>exists_path = (\<lambda>p. p \<in> {''image.ubi'', ''key.bin'', ''short.bin''}),
      open_rb = (\<lambda>p. if p = ''key.bin'' then Inr (replicate 64 7)
                      else if p = ''short.bin'' then Inr [1, 2, 3]
                      else if p = ''image.ubi'' then Inr []
                      else Inl (OSError ''No such file or directory''))\<rparr>"

definition demo_utils :: utils where
  "demo_utils =
     \<lparr>guess_start_offset = (\<lambda>p g. Inr 2048),
      guess_filetype = (\<lambda>p off. Inr (Some UBI_EC_HDR_MAGIC)),
      guess_peb_size = (\<lambda>p. Inr (Some 131072)),
      guess_leb_size = (\<lambda>p. Inr (Some 126976))\<rparr>"

definition demo_args :: args where
  "demo_args =
     \<lparr>arg_log = False, arg_verbose = False, arg_block_size = None, arg_start_offset = None,
      arg_end_offset = None, arg_guess_offset = None,
      arg_warn_only_block_read_errors = False, arg_ignore_block_header_errors = False,
      arg_uboot_fix = False, arg_listpath = Some ''/'', arg_copyfile = None,
      arg_copyfiledest = None, arg_master_key = None, arg_filepath = ''image.ubi''\<rparr>"

section \<open>What a statement may change\<close>







section \<open>Reading a run\<close>

text \<open>
  What a run has done, read off the two states around it: the host calls and the events
  it has added, the file bodies written (path and bytes) and the hard links made (source
  and new name) among some calls, and whether an event is a report of \<^verbatim>\<open>error\<close>.
  A statement is \<open>quiet\<close> when it only adds calls that neither write nor link and
  events that are not reports, and leaves the inode map alone.
\<close>

fun written :: "syscall \<Rightarrow> (string \<times> bytes) option" where
  "written (Write p b) = Some (p, b)"
| "written c = None"

fun linked :: "syscall \<Rightarrow> (string \<times> string) option" where
  "linked (Link src dst) = Some (src, dst)"
| "linked c = None"

definition writes :: "syscall list \<Rightarrow> (string \<times> bytes) list" where
  "writes cs = List.map_filter written cs"

definition links :: "syscall list \<Rightarrow> (string \<times> string) list" where
  "links cs = List.map_filter linked cs"

fun is_err :: "event \<Rightarrow> bool" where
  "is_err (Err fn level fmt args) = True"
| "is_err e = False"



definition quiet :: "stmt \<Rightarrow> bool" where
  "quiet c =
     (\<forall>s. \<exists>e tail new.
        c s = (e, s\<lparr>calls := calls s @ tail, out := out s @ new\<rparr>)
        \<and> writes tail = [] \<and> links tail = [] \<and> (\<forall>x \<in> set new. \<not> is_err x))"


section \<open>Properties\<close>

lemmas stmt_defs =
  raise_def skip_def try_except_def error_def log_def verbose_log_def os_call_def

subsection \<open>\<^verbatim>\<open>extract_files\<close>\<close>

text \<open>
  C5. When the walk of the index from \<^verbatim>\<open>master_node.root_lnum\<close>, \<^verbatim>\<open>root_offs\<close> raises,
  \<open>extract_files\<close> reports the exception at level \<^verbatim>\<open>Error\<close> and does nothing else: no
  entry is extracted and the host is not touched. This holds for every value of the
  settings, the tolerance options among them.
\<close>

theorem extract_files_walk_raises:
  assumes "walk_index u (root_lnum u) (root_offs u) = Inl e"
  shows "extract_files n h cfg u out_path perms s =
           (None, s\<lparr>out := out s @ [Err ''extract_files'' ''Error'' ''%s'' [PExn e]]\<rparr>)"
  using assms by (simp add: extract_files_def try_except_def error_def)

theorem extract_files_walk_raises_witness:
  "walk_index broken_ubifs (root_lnum broken_ubifs) (root_offs broken_ubifs) =
     Inl (Exception ''bad index node'')
   \<and> extract_files 100 (demo_host []) no_options broken_ubifs ''/out'' False (start fmempty) =
       (None,
        \<lparr>calls = [],
         out = [Err ''extract_files'' ''Error'' ''%s'' [PExn (Exception ''bad index node'')]],
         inodes = fmempty\<rparr>)"
proof -
  have w: "walk_index broken_ubifs (root_lnum broken_ubifs) (root_offs broken_ubifs) =
             Inl (Exception ''bad index node'')"
    by (simp add: broken_ubifs_def)
  show ?thesis
    using w extract_files_walk_raises
            [OF w, of 100 "demo_host []" no_options "''/out''" False "start fmempty"]
    by (simp add: start_def)
qed

text \<open>
  C10. When the walk returns and the inode map has fewer than two entries,
  \<open>extract_files\<close> raises \<^verbatim>\<open>Exception('No inodes found')\<close>, which its own handler reports
  at level \<^verbatim>\<open>Error\<close>; it returns without an exception, no host call has been made and
  nothing else has been printed.
\<close>

theorem extract_files_no_inodes:
  assumes "walk_index u (root_lnum u) (root_offs u) = Inr (m, bad_blocks)"
    and "fcard (fmdom m) < 2"
  shows "fst (extract_files n h cfg u out_path perms s) = None
       \<and> calls (snd (extract_files n h cfg u out_path perms s)) = calls s
       \<and> out (snd (extract_files n h cfg u out_path perms s)) =
           out s @ [Err ''extract_files'' ''Error'' ''%s'' [PExn (Exception ''No inodes found'')]]"
  using assms by (simp add: extract_files_def stmt_defs)

theorem extract_files_no_inodes_witness:
  "fcard (fmdom (fmupd 1 (dir_inode [reg_dent 5 ''a'']) fmempty)) < 2
   \<and> calls (snd (extract_files 100 (demo_host []) no_options
        (demo_ubifs (fmupd 1 (dir_inode [reg_dent 5 ''a'']) fmempty) []) ''/out'' False
        (start fmempty))) = []
   \<and> out (snd (extract_files 100 (demo_host []) no_options
        (demo_ubifs (fmupd 1 (dir_inode [reg_dent 5 ''a'']) fmempty) []) ''/out'' False
        (start fmempty))) =
       [Err ''extract_files'' ''Error'' ''%s'' [PExn (Exception ''No inodes found'')]]"
proof -
  let ?m = "fmupd 1 (dir_inode [reg_dent 5 ''a'']) fmempty"
  have w: "walk_index (demo_ubifs ?m []) (root_lnum (demo_ubifs ?m [])) (root_offs (demo_ubifs ?m []))
             = Inr (?m, [])"
    by (simp add: demo_ubifs_def)
  have c: "fcard (fmdom ?m) < 2"
    by (simp add: fcard_finsert_if)
  show ?thesis
    using c extract_files_no_inodes
            [OF w c, of 100 "demo_host []" no_options "''/out''" False "start fmempty"]
    by (simp add: start_def)
qed

lemmas path_defs = is_safe_path_def path_join_def startswith_def endswith_def

lemmas demo_defs =
  demo_host_def lexical_realpath_def demo_ubifs_def no_options_def demo_ino_def
  file_inode_def dir_inode_def dev_inode_def reg_dent_def start_def

subsection \<open>The two guards of \<^verbatim>\<open>extract_dents\<close>\<close>

lemma extract_dents_unsafe_discarded:
  assumes "fmlookup (inodes s) (inum d) = Some inode"
    and "\<not> is_safe_path h (calls s) path (name d)"
  shows "extract_dents n h cfg u d path perms s =
           (None, s\<lparr>out := out s @ [Err ''extract_dents'' ''Warn''
                      ''Path traversal attempt: %s, discarding.'' [PStr (name d)]]\<rparr>)"
  using assms by (simp add: extract_dents.simps stmt_defs)

text \<open>
  C1. The specification says that \<open>is_safe_path\<close> returns false whenever the resolved path of the
  entry lies outside the real path of the directory, so that nothing is extracted above
  the root. \<open>is_safe_path\<close> compares the two resolved paths as strings, by
  \<^verbatim>\<open>startswith\<close>: on a host without symbolic links, with the root \<^verbatim>\<open>/out\<close> and the entry
  name \<^verbatim>\<open>../out2/evil\<close>, the resolved path \<^verbatim>\<open>/out2/evil\<close> lies outside \<^verbatim>\<open>/out\<close>,
  \<open>is_safe_path\<close> returns true and \<open>extract_dents\<close> writes the file \<^verbatim>\<open>/out2/evil\<close>.
\<close>

theorem is_safe_path_accepts_sibling_of_root:
  "is_safe_path (demo_host []) [] ''/out'' ''../out2/evil''
   \<and> lies_outside (realpath (demo_host []) [] ''/out'')
        (realpath (demo_host []) [] (path_join ''/out'' ''../out2/evil''))
   \<and> extract_dents 100 (demo_host []) no_options (demo_ubifs fmempty [])
        (reg_dent 7 ''../out2/evil'') ''/out'' False (start (fmupd 7 (file_inode 1) fmempty)) =
       (None,
        \<lparr>calls = [OpenWb ''/out2/evil'', Write ''/out2/evil'' [120, 121, 122],
                  Utime ''/out2/evil'' 10 20],
         out = [Log ''_write_reg_file'' ''Make File: %s'' [PStr ''/out2/evil''],
                Verbose ''_set_file_timestamps'' ''timestamps: access: %s, modify: %s, path: %s''
                  [PInt 10, PInt 20, PStr ''/out2/evil'']],
         inodes = fmupd 7 (file_inode 1) fmempty\<rparr>)"
  by (simp add: extract_dents.simps extract_dents_other_def extract_dents_REG_def write_body_def
        write_reg_file_def set_file_timestamps_def if_perms_def stmt_defs path_defs demo_defs
        lies_outside_def Let_def)

subsection \<open>Devices and sockets\<close>

lemma extract_dents_device_node:
  assumes "fmlookup (inodes s) (inum d) = Some inode"
    and "type d = UBIFS_ITYPE_BLK \<or> type d = UBIFS_ITYPE_CHR"
    and "is_safe_path h (calls s) path (name d)"
    and "p = realpath h (calls s) (path_join path (name d))"
    and "ino inode = Some i"
    and "struct_unpack_II (data i) = Inr (dev, dev2)"
    and "\<not> use_dummy_devices cfg"
    and "raises h (calls s) (Mknod p (mode i) dev) = None"
  shows "extract_dents n h cfg u d path perms s =
           try_except (if_perms perms h p inode)
             (\<lambda>e. error ''extract_dents'' ''Warn'' ''DEV Fail: %s'' [PExn e])
             (s\<lparr>calls := calls s @ [Mknod p (mode i) dev],
                out := out s @ [Log ''extract_dents'' ''Make Device Node: %s'' [PStr p]]\<rparr>)"
  using assms
  by (auto simp add: extract_dents.simps extract_dents_other_def extract_dents_DEV_def
        stmt_defs Let_def split: prod.splits option.splits)

lemma extract_dents_dummy_device:
  assumes "fmlookup (inodes s) (inum d) = Some inode"
    and "type d = UBIFS_ITYPE_BLK \<or> type d = UBIFS_ITYPE_CHR"
    and "is_safe_path h (calls s) path (name d)"
    and "p = realpath h (calls s) (path_join path (name d))"
    and "ino inode = Some i"
    and "struct_unpack_II (data i) = Inr (dev, dev2)"
    and "use_dummy_devices cfg"
    and "raises h (calls s) (OpenWb p) = None"
  shows "extract_dents n h cfg u d path perms s =
           (None,
            s\<lparr>calls := calls s @ [OpenWb p],
              out := out s @ [Log ''extract_dents'' ''Create dummy device.'' [],
                              Err ''extract_dents'' ''Warn'' ''DEV Fail: %s'' [PExn TypeError]]\<rparr>)"
  using assms
  by (auto simp add: extract_dents.simps extract_dents_other_def extract_dents_DEV_def
        write_reg_file_def stmt_defs Let_def)

text \<open>
  C6. The specification says that with \<^verbatim>\<open>use_dummy_devices\<close> set a device entry becomes a regular
  file whose content is the device number. The code passes \<^verbatim>\<open>str(dev)\<close> to a file opened
  with mode \<^verbatim>\<open>'wb'\<close>: the file has been created, empty, when \<^verbatim>\<open>f.write\<close> raises
  \<^verbatim>\<open>TypeError\<close>, which the handler reports as \<^verbatim>\<open>DEV Fail\<close>. For a character device with
  the data bytes of device number 1281 the only host call is the \<^verbatim>\<open>open\<close>; nothing is
  written into the file.
\<close>

theorem extract_dents_dummy_device_is_empty:
  "extract_dents 100 (demo_host []) (no_options\<lparr>use_dummy_devices := True\<rparr>)
     (demo_ubifs fmempty []) \<lparr>inum = 7, type = UBIFS_ITYPE_CHR, name = ''tty''\<rparr> ''/out'' False
     (start (fmupd 7 (dev_inode [1, 5, 0, 0, 0, 0, 0, 0]) fmempty)) =
   (None,
    \<lparr>calls = [OpenWb ''/out/tty''],
     out = [Log ''extract_dents'' ''Create dummy device.'' [],
            Err ''extract_dents'' ''Warn'' ''DEV Fail: %s'' [PExn TypeError]],
     inodes = fmupd 7 (dev_inode [1, 5, 0, 0, 0, 0, 0, 0]) fmempty\<rparr>)"
  by (simp add: extract_dents.simps extract_dents_other_def extract_dents_DEV_def
        write_reg_file_def stmt_defs path_defs demo_defs struct_unpack_II_def Let_def)

text \<open>
  C7. For a socket entry whose inode is in the map and whose path passes the check:
  with \<^verbatim>\<open>use_dummy_socket_file\<close> set, and the host letting the file be opened, the one
  host call is \<^verbatim>\<open>open(dent_path, 'wb')\<close>, which leaves an empty regular file at the
  entry's path, and nothing is written to it (the \<^verbatim>\<open>f.write('')\<close> that follows raises
  \<^verbatim>\<open>TypeError\<close>, reported as \<^verbatim>\<open>SOCK Fail\<close>); with the option unset the state does not
  change at all: no host call, no message.
\<close>

theorem extract_dents_sock:
  assumes "fmlookup (inodes s) (inum d) = Some inode"
    and "type d = UBIFS_ITYPE_SOCK"
    and "is_safe_path h (calls s) path (name d)"
    and "p = realpath h (calls s) (path_join path (name d))"
  shows "(use_dummy_socket_file cfg \<and> raises h (calls s) (OpenWb p) = None \<longrightarrow>
            extract_dents n h cfg u d path perms s =
              (None, s\<lparr>calls := calls s @ [OpenWb p],
                       out := out s @ [Err ''extract_dents'' ''Warn'' ''SOCK Fail: %s : %s''
                                         [PStr p, PExn TypeError]]\<rparr>))
       \<and> (\<not> use_dummy_socket_file cfg \<longrightarrow>
            extract_dents n h cfg u d path perms s = (None, s))"
  using assms
  by (simp add: extract_dents.simps extract_dents_other_def extract_dents_SOCK_def
        write_reg_file_def stmt_defs Let_def)

theorem extract_dents_sock_witness:
  "extract_dents 100 (demo_host []) (no_options\<lparr>use_dummy_socket_file := True\<rparr>)
     (demo_ubifs fmempty []) \<lparr>inum = 7, type = UBIFS_ITYPE_SOCK, name = ''ctl''\<rparr> ''/out'' True
     (start (fmupd 7 (dev_inode []) fmempty)) =
     (None,
      \<lparr>calls = [OpenWb ''/out/ctl''],
       out = [Err ''extract_dents'' ''Warn'' ''SOCK Fail: %s : %s''
                [PStr ''/out/ctl'', PExn TypeError]],
       inodes = fmupd 7 (dev_inode []) fmempty\<rparr>)
   \<and> extract_dents 100 (demo_host []) no_options
       (demo_ubifs fmempty []) \<lparr>inum = 7, type = UBIFS_ITYPE_SOCK, name = ''ctl''\<rparr> ''/out'' True
       (start (fmupd 7 (dev_inode []) fmempty)) =
     (None, start (fmupd 7 (dev_inode []) fmempty))"
proof -
  let ?d = "\<lparr>inum = 7, type = UBIFS_ITYPE_SOCK, name = ''ctl''\<rparr>"
  let ?s = "start (fmupd 7 (dev_inode []) fmempty)"
  have a: "fmlookup (inodes ?s) (inum ?d) = Some (dev_inode [])"
    by (simp add: start_def)
  have b: "type ?d = UBIFS_ITYPE_SOCK"
    by simp
  have c: "is_safe_path (demo_host []) (calls ?s) ''/out'' (name ?d)"
    by (simp add: path_defs demo_defs)
  have p: "''/out/ctl'' = realpath (demo_host []) (calls ?s) (path_join ''/out'' (name ?d))"
    by (simp add: path_defs demo_defs)
  have r: "raises (demo_host []) (calls ?s) (OpenWb ''/out/ctl'') = None"
    by (simp add: demo_host_def)
  have on: "use_dummy_socket_file (no_options\<lparr>use_dummy_socket_file := True\<rparr>)"
    by simp
  have off: "\<not> use_dummy_socket_file no_options"
    by (simp add: no_options_def)
  show ?thesis
    using extract_dents_sock [OF a b c p, of "no_options\<lparr>use_dummy_socket_file := True\<rparr>"
            100 "demo_ubifs fmempty []" True]
          extract_dents_sock [OF a b c p, of no_options 100 "demo_ubifs fmempty []" True]
          r on off
    by (simp add: start_def)
qed

subsection \<open>The arguments of \<^verbatim>\<open>ubireader_list_files\<close>\<close>

lemma main_Inr_master_key:
  assumes "main fs ut st a = Inr r"
  shows "\<exists>path0. main_master_key fs a = Inr (v_master_key r, path0)"
  using assms by (auto simp add: main_def split: sum.splits prod.splits)

lemma main_Inr_start_offset:
  assumes "main fs ut st a = Inr r"
  shows "\<exists>path. main_start_offset ut a path = Inr (v_start_offset r)"
  using assms by (auto simp add: main_def split: sum.splits prod.splits)

lemma main_master_key_Inl:
  assumes "main_master_key fs a = Inl x"
  shows "main fs ut st a = Inl x"
  using assms by (simp add: main_def)

lemma main_master_key_given:
  assumes "arg_master_key a = Some p" and "p \<noteq> []"
  shows "main_master_key fs a =
           (if \<not> exists_path fs p then Inl (ParserError ''File path doesn't exist.'')
            else (case open_rb fs p of
                    Inl e \<Rightarrow> Inl (Uncaught e)
                  | Inr content \<Rightarrow>
                      if length content \<noteq> 64
                      then Inl (ParserError ''Master key file size is not 64 bytes.'')
                      else Inr (Some (take 64 content), Some p)))"
  using assms by (simp add: main_master_key_def truthy_str_def)

lemma main_master_key_absent:
  assumes "arg_master_key a = None"
  shows "main_master_key fs a = Inr (None, None)"
  using assms by (simp add: main_master_key_def truthy_str_def)

text \<open>An empty string given as the key path is false in Python and counts as no path.\<close>

lemma main_master_key_empty:
  assumes "arg_master_key a = Some []"
  shows "main_master_key fs a = Inr (None, None)"
  using assms by (simp add: main_master_key_def truthy_str_def)

text \<open>
  C8. When a master-key path \<open>p\<close> is given: if \<open>main\<close> reaches the decoding, then the
  file exists, it has exactly 64 bytes and these 64 bytes are the master key; if the
  file does not exist, \<^verbatim>\<open>parser.error\<close> ends the program with
  \<^verbatim>\<open>File path doesn't exist.\<close>; if it exists, can be opened and has another size,
  \<^verbatim>\<open>parser.error\<close> ends it with \<^verbatim>\<open>Master key file size is not 64 bytes.\<close>; both before
  anything else is looked at. When no path is given and the decoding is reached, the
  master key is \<^verbatim>\<open>None\<close>.
\<close>

theorem main_master_key_64_bytes:
  "(\<forall>p. arg_master_key a = Some p \<and> p \<noteq> [] \<longrightarrow>
      (\<forall>r. main fs ut st a = Inr r \<longrightarrow>
         exists_path fs p \<and>
         (\<exists>k. open_rb fs p = Inr k \<and> length k = 64 \<and> v_master_key r = Some k))
    \<and> (\<not> exists_path fs p \<longrightarrow> main fs ut st a = Inl (ParserError ''File path doesn't exist.''))
    \<and> (\<forall>k. exists_path fs p \<and> open_rb fs p = Inr k \<and> length k \<noteq> 64 \<longrightarrow>
           main fs ut st a = Inl (ParserError ''Master key file size is not 64 bytes.'')))
   \<and> (arg_master_key a = None \<longrightarrow> (\<forall>r. main fs ut st a = Inr r \<longrightarrow> v_master_key r = None))"
proof (intro conjI allI impI)
  fix p r
  assume g: "arg_master_key a = Some p \<and> p \<noteq> []" and m: "main fs ut st a = Inr r"
  from m obtain path0 where k: "main_master_key fs a = Inr (v_master_key r, path0)"
    using main_Inr_master_key by blast
  from g have e: "main_master_key fs a =
           (if \<not> exists_path fs p then Inl (ParserError ''File path doesn't exist.'')
            else (case open_rb fs p of
                    Inl e \<Rightarrow> Inl (Uncaught e)
                  | Inr content \<Rightarrow>
                      if length content \<noteq> 64
                      then Inl (ParserError ''Master key file size is not 64 bytes.'')
                      else Inr (Some (take 64 content), Some p)))"
    using main_master_key_given by blast
  from k e show "exists_path fs p"
    by (simp split: if_splits)
  from k e show "\<exists>k. open_rb fs p = Inr k \<and> length k = 64 \<and> v_master_key r = Some k"
    by (auto split: if_splits sum.splits)
next
  fix p
  assume g: "arg_master_key a = Some p \<and> p \<noteq> []" and n: "\<not> exists_path fs p"
  from g n have "main_master_key fs a = Inl (ParserError ''File path doesn't exist.'')"
    by (simp add: main_master_key_given)
  then show "main fs ut st a = Inl (ParserError ''File path doesn't exist.'')"
    by (rule main_master_key_Inl)
next
  fix p k
  assume g: "arg_master_key a = Some p \<and> p \<noteq> []"
    and n: "exists_path fs p \<and> open_rb fs p = Inr k \<and> length k \<noteq> 64"
  from g n have "main_master_key fs a = Inl (ParserError ''Master key file size is not 64 bytes.'')"
    by (simp add: main_master_key_given)
  then show "main fs ut st a = Inl (ParserError ''Master key file size is not 64 bytes.'')"
    by (rule main_master_key_Inl)
next
  fix r
  assume g: "arg_master_key a = None" and m: "main fs ut st a = Inr r"
  from m obtain path0 where k: "main_master_key fs a = Inr (v_master_key r, path0)"
    using main_Inr_master_key by blast
  with g show "v_master_key r = None"
    by (simp add: main_master_key_absent)
qed

lemmas main_defs =
  main_def main_master_key_def main_filepath_def main_start_offset_def main_filetype_def
  main_block_size_def main_end_offset_def main_settings_def truthy_int_def truthy_str_def

lemmas demo_main_defs = demo_files_def demo_utils_def demo_args_def no_options_def

theorem main_master_key_64_bytes_witness:
  "main demo_files demo_utils no_options (demo_args\<lparr>arg_master_key := Some ''key.bin''\<rparr>) =
     Inr \<lparr>v_settings = no_options, v_master_key = Some (replicate 64 7),
          v_path = ''image.ubi'', v_start_offset = 2048, v_end_offset = None,
          v_filetype = UBI_EC_HDR_MAGIC, v_block_size = 131072\<rparr>
   \<and> exists_path demo_files ''key.bin''
   \<and> (\<exists>k. open_rb demo_files ''key.bin'' = Inr k \<and> length k = 64 \<and> Some (replicate 64 7) = Some k)
   \<and> main demo_files demo_utils no_options (demo_args\<lparr>arg_master_key := Some ''nokey.bin''\<rparr>) =
       Inl (ParserError ''File path doesn't exist.'')
   \<and> main demo_files demo_utils no_options (demo_args\<lparr>arg_master_key := Some ''short.bin''\<rparr>) =
       Inl (ParserError ''Master key file size is not 64 bytes.'')
   \<and> main demo_files demo_utils no_options demo_args =
       Inr \<lparr>v_settings = no_options, v_master_key = None,
            v_path = ''image.ubi'', v_start_offset = 2048, v_end_offset = None,
            v_filetype = UBI_EC_HDR_MAGIC, v_block_size = 131072\<rparr>"
proof -
  let ?r = "\<lparr>v_settings = no_options, v_master_key = Some (replicate 64 7),
             v_path = ''image.ubi'', v_start_offset = 2048, v_end_offset = None,
             v_filetype = UBI_EC_HDR_MAGIC, v_block_size = 131072\<rparr>"
  have m: "main demo_files demo_utils no_options (demo_args\<lparr>arg_master_key := Some ''key.bin''\<rparr>)
             = Inr ?r"
    by (simp add: main_defs demo_main_defs)
  have n: "main demo_files demo_utils no_options demo_args =
             Inr \<lparr>v_settings = no_options, v_master_key = None,
                  v_path = ''image.ubi'', v_start_offset = 2048, v_end_offset = None,
                  v_filetype = UBI_EC_HDR_MAGIC, v_block_size = 131072\<rparr>"
    by (simp add: main_defs demo_main_defs)
  have x: "\<not> exists_path demo_files ''nokey.bin''"
    by (simp add: demo_files_def)
  have y: "exists_path demo_files ''short.bin'' \<and> open_rb demo_files ''short.bin'' = Inr [1, 2, 3]
             \<and> length [1, 2, 3 :: byte] \<noteq> 64"
    by (simp add: demo_files_def)
  show ?thesis
    using m n x y
      main_master_key_64_bytes [of "demo_args\<lparr>arg_master_key := Some ''key.bin''\<rparr>"
        demo_files demo_utils no_options]
      main_master_key_64_bytes [of "demo_args\<lparr>arg_master_key := Some ''nokey.bin''\<rparr>"
        demo_files demo_utils no_options]
      main_master_key_64_bytes [of "demo_args\<lparr>arg_master_key := Some ''short.bin''\<rparr>"
        demo_files demo_utils no_options]
    by simp
qed

lemma main_start_offset_given:
  assumes "arg_start_offset a = Some v" and "v \<noteq> 0"
    and "main fs ut st a = Inr r"
  shows "v_start_offset r = v"
proof -
  from assms(3) obtain path where "main_start_offset ut a path = Inr (v_start_offset r)"
    using main_Inr_start_offset by blast
  with assms(1,2) show ?thesis
    by (simp add: main_start_offset_def truthy_int_def)
qed

text \<open>
  C9. The specification says that a start offset given by the user is used as it is, the value 0
  included. Line 120 tests \<^verbatim>\<open>if args.start_offset:\<close>, which is false for 0 as it is for
  \<^verbatim>\<open>None\<close>: with \<^verbatim>\<open>-s 0\<close> on an image whose first magic number is at offset 2048 the
  script scans the file and decodes from offset 2048.
\<close>

theorem main_ignores_start_offset_zero:
  "main demo_files demo_utils no_options (demo_args\<lparr>arg_start_offset := Some 0\<rparr>) =
     Inr \<lparr>v_settings = no_options, v_master_key = None, v_path = ''image.ubi'',
          v_start_offset = 2048, v_end_offset = None, v_filetype = UBI_EC_HDR_MAGIC,
          v_block_size = 131072\<rparr>"
  by (simp add: main_defs demo_main_defs)

subsection \<open>Output and inode map only grow\<close>
































subsection \<open>Entries without an inode\<close>










subsection \<open>Exceptions while one entry is extracted\<close>
















subsection \<open>Hard links\<close>



lemma writes_simps:
  "writes [] = []"
  "writes (c # cs) = (case written c of None \<Rightarrow> writes cs | Some w \<Rightarrow> w # writes cs)"
  by (simp_all add: writes_def List.map_filter_def split: option.splits)

lemma links_simps:
  "links [] = []"
  "links (c # cs) = (case linked c of None \<Rightarrow> links cs | Some w \<Rightarrow> w # links cs)"
  by (simp_all add: links_def List.map_filter_def split: option.splits)

lemma quietI:
  assumes "\<And>s. \<exists>e tail new.
        c s = (e, s\<lparr>calls := calls s @ tail, out := out s @ new\<rparr>)
        \<and> writes tail = [] \<and> links tail = [] \<and> (\<forall>x \<in> set new. \<not> is_err x)"
  shows "quiet c"
  using assms by (simp add: quiet_def)



lemma quiet_log: "quiet (log fn fmt args)"
proof (rule quietI)
  fix s :: state
  have "log fn fmt args s = (None, s\<lparr>calls := calls s @ [], out := out s @ [Log fn fmt args]\<rparr>)"
    by (simp add: log_def)
  moreover have "\<forall>x \<in> set [Log fn fmt args]. \<not> is_err x"
    by simp
  ultimately show "\<exists>e' tail new. log fn fmt args s =
          (e', s\<lparr>calls := calls s @ tail, out := out s @ new\<rparr>)
        \<and> writes tail = [] \<and> links tail = [] \<and> (\<forall>x \<in> set new. \<not> is_err x)"
    by (metis writes_simps(1) links_simps(1))
qed






























end
